theory Spec2Isabelle
  imports Main "HOL-Library.Sublist"
begin

section \<open>Values of the client language and of the storage\<close>

text \<open>
  Identifiers are opaque strings (\<open>uuid\<close> columns, \<open>id: string\<close> in the pages).
  A nullable \<open>text\<close> column is a \<open>string option\<close>, a nullable \<open>integer\<close> column an
  \<open>int option\<close>; \<open>None\<close> is SQL \<open>NULL\<close>, which the client receives as \<open>null\<close>.
\<close>

type_synonym uuid = string

text \<open>JavaScript truthiness of a nullable string: \<open>null\<close> and the empty string are falsy.\<close>

definition truthy :: "string option \<Rightarrow> bool" where
  "truthy v = (case v of None \<Rightarrow> False | Some s \<Rightarrow> s \<noteq> [])"

text \<open>\<open>a || b\<close> on nullable strings.\<close>

definition js_or :: "string option \<Rightarrow> string option \<Rightarrow> string option" where
  "js_or a b = (if truthy a then a else b)"

text \<open>\<open>a || 'literal'\<close>: the result is always a string.\<close>

definition or_default :: "string option \<Rightarrow> string \<Rightarrow> string" where
  "or_default a d = (case a of None \<Rightarrow> d | Some s \<Rightarrow> if s = [] then d else s)"

text \<open>Interpolation \<open>${v}\<close> in a template literal: \<open>null\<close> is printed as the word null.\<close>

definition js_str :: "string option \<Rightarrow> string" where
  "js_str v = (case v of None \<Rightarrow> ''null'' | Some s \<Rightarrow> s)"

text \<open>A nullable number in arithmetic and comparisons: \<open>null\<close> converts to 0.\<close>

definition js_num :: "int option \<Rightarrow> int" where
  "js_num v = (case v of None \<Rightarrow> 0 | Some n \<Rightarrow> n)"

fun digits :: "nat \<Rightarrow> string" where
  "digits n =
     (if n < 10 then [''0123456789'' ! n]
      else digits (n div 10) @ [''0123456789'' ! (n mod 10)])"

declare digits.simps [simp del]

text \<open>Interpolation of a nullable integer (the \<open>year\<close> of a citation).\<close>

definition js_int_str :: "int option \<Rightarrow> string" where
  "js_int_str v =
     (case v of
        None \<Rightarrow> ''null''
      | Some n \<Rightarrow> if n < 0 then CHR ''-'' # digits (nat (- n)) else digits (nat n))"

subsection \<open>The \<open>ILIKE\<close> operator\<close>

text \<open>
  \<open>.ilike(column, pattern)\<close> is evaluated by the storage as \<open>column ILIKE pattern\<close>.
  Text is UTF-8: a string is the list of its bytes, and a character is one ASCII byte,
  or a leading byte together with the continuation bytes (\<open>10xxxxxx\<close>) that follow it.
\<close>

definition is_ascii :: "char \<Rightarrow> bool" where
  "is_ascii c = (\<not> digit7 c)"

definition is_continuation :: "char \<Rightarrow> bool" where
  "is_continuation c = (digit7 c \<and> \<not> digit6 c)"

function utf8_chars :: "string \<Rightarrow> string list" where
  "utf8_chars [] = []"
| "utf8_chars (c # cs) =
     (if is_ascii c then [c] # utf8_chars cs
      else (c # takeWhile is_continuation cs) # utf8_chars (dropWhile is_continuation cs))"
  by pat_completeness auto
termination
  by (relation "measure length") (auto simp: length_dropWhile_le less_Suc_eq_le)

text \<open>
  \<open>ILIKE\<close> lower-cases the pattern and the value character by character and then
  matches them as \<open>LIKE\<close> does. An ASCII letter is lower-cased by the table below. How a
  character of several bytes is lower-cased is decided by the locale of the database:
  \<open>lc\<close> is that mapping, from one character to its lower-case form.
\<close>

definition to_lower :: "char \<Rightarrow> char" where
  "to_lower c =
     (case map_of (zip ''ABCDEFGHIJKLMNOPQRSTUVWXYZ'' ''abcdefghijklmnopqrstuvwxyz'') c of
        Some l \<Rightarrow> l
      | None \<Rightarrow> c)"

definition lower_char :: "(string \<Rightarrow> string) \<Rightarrow> string \<Rightarrow> string" where
  "lower_char lc ch = (case ch of [b] \<Rightarrow> [to_lower b] | _ \<Rightarrow> lc ch)"

definition lower :: "(string \<Rightarrow> string) \<Rightarrow> string \<Rightarrow> string" where
  "lower lc s = concat (map (lower_char lc) (utf8_chars s))"

text \<open>
  In a pattern \<open>%\<close> matches any sequence of characters, \<open>_\<close> matches any one
  character, a backslash makes the next pattern character literal, and every other
  byte matches itself; the match covers the whole column value. A pattern that ends in
  a lone backslash is rejected by the storage; the pages never read the error of such a
  query and see no row, which is the value \<open>False\<close> here.
\<close>

function like_match :: "string \<Rightarrow> string \<Rightarrow> bool" where
  "like_match [] t = (t = [])"
| "like_match (p # ps) [] = (p = CHR ''%'' \<and> like_match ps [])"
| "like_match (p # ps) (c # cs) =
     (if p = CHR ''%'' then like_match ps (c # cs) \<or> like_match (p # ps) cs
      else if p = CHR ''_'' then like_match ps (dropWhile is_continuation cs)
      else if p = CHR 0x5C then
        (case ps of [] \<Rightarrow> False | q # qs \<Rightarrow> q = c \<and> like_match qs cs)
      else p = c \<and> like_match ps cs)"
  by pat_completeness auto
termination
  by (relation "measure (\<lambda>(p, t). length p + length t)")
    (auto simp: length_dropWhile_le less_Suc_eq_le le_SucI trans_le_add2)

text \<open>The REST layer in front of the storage reads \<open>*\<close> in a pattern as \<open>%\<close>.\<close>

definition star2percent :: "char \<Rightarrow> char" where
  "star2percent c = (if c = CHR ''*'' then CHR ''%'' else c)"

definition ilike :: "(string \<Rightarrow> string) \<Rightarrow> string \<Rightarrow> string \<Rightarrow> bool" where
  "ilike lc val pattern = like_match (lower lc (map star2percent pattern)) (lower lc val)"





section \<open>The schema\<close>

text \<open>
  One record per table of the migration, with the columns the pages read or write.
  Columns declared without \<open>NOT NULL\<close> are options. Timestamps and the remaining
  descriptive columns, which no flow reads, are left out.
\<close>

record drug_row =
  d_id :: uuid
  d_name :: string

record gene_row =
  g_id :: uuid
  g_symbol :: string

record phenotype_row =
  ph_id :: uuid
  ph_phenotype :: string
  ph_description :: "string option"

record guideline_row =
  gl_id :: uuid
  gl_recommendation :: "string option"
  gl_evidence_level :: "string option"
  gl_patient_summary :: "string option"
  gl_clinician_summary :: "string option"

record interaction_row =
  i_id :: uuid
  i_drug_id :: "uuid option"
  i_gene_id :: "uuid option"
  i_phenotype_id :: "uuid option"
  i_guideline_id :: "uuid option"
  i_action :: "string option"
  i_summary :: "string option"
  i_evidence :: "string option"

record citation_row =
  c_guideline_id :: "uuid option"
  c_title :: "string option"
  c_authors :: "string option"
  c_journal :: "string option"
  c_year :: "int option"
  c_url :: "string option"

record saved_answer =
  sa_id :: uuid
  sa_user_id :: uuid
  sa_drug_name :: string
  sa_gene_name :: string
  sa_user_type :: string
  sa_answer :: string
  sa_created_at :: string

record usage_row =
  query_count :: "int option"

record ingestion_job =
  j_id :: uuid
  j_job_type :: string
  j_status :: "string option"
  j_started_at :: "string option"
  j_completed_at :: "string option"
  j_records_processed :: "int option"
  j_error_message :: "string option"

text \<open>
  A table is the list of its rows in the order in which the storage returns them.
  \<open>usage_monthly\<close> carries \<open>UNIQUE(user_id, month)\<close>: it is a map from that key to the
  row. \<open>app_admins\<close> is the list of the administrators' user ids. \<open>ctype_lower\<close> is
  the lower-casing of a character of several bytes under the locale of the database.
\<close>

record db =
  ctype_lower :: "string \<Rightarrow> string"
  app_admins :: "uuid list"
  drugs :: "drug_row list"
  genes :: "gene_row list"
  phenotypes :: "phenotype_row list"
  guidelines :: "guideline_row list"
  interactions :: "interaction_row list"
  citations :: "citation_row list"
  saved_answers :: "saved_answer list"
  usage_monthly :: "uuid \<times> string \<Rightarrow> usage_row option"
  ingestion_jobs :: "ingestion_job list"

section \<open>Storage calls\<close>

text \<open>
  Every call answers with a pair \<open>{data, error}\<close> and never throws: when the storage
  fails, \<open>error\<close> holds its message and \<open>data\<close> is \<open>null\<close>. Which calls fail is an
  input of a flow: \<open>faults c = Some m\<close> says that call \<open>c\<close> fails with message \<open>m\<close>.
  A flow also returns the list of the calls it made, in order.
\<close>

datatype call =
    SelectUsage | SelectDrug | SelectGene | SelectInteractions | SelectCitations
  | UpdateUsage | InsertUsage | InsertSavedAnswer | DeleteSavedAnswer | InsertIngestionJob

type_synonym faults = "call \<Rightarrow> string option"

definition no_faults :: faults where
  "no_faults = (\<lambda>c. None)"

text \<open>
  \<open>from('usage_monthly').select('query_count').eq('user_id', uid).eq('month', m).maybeSingle()\<close>;
  this is the one read whose \<open>error\<close> the query flow inspects.
\<close>

definition select_usage :: "faults \<Rightarrow> db \<Rightarrow> uuid \<Rightarrow> string \<Rightarrow> string + usage_row option" where
  "select_usage F d uid month =
     (case F SelectUsage of
        Some usageError \<Rightarrow> Inl usageError
      | None \<Rightarrow> Inr (usage_monthly d (uid, month)))"

text \<open>
  \<open>from('drugs').select('id, name').ilike('name', `%${drugInput}%`).limit(1).maybeSingle()\<close>:
  the first row in storage order that matches, \<open>null\<close> when none does or the call fails.
\<close>

definition select_drug :: "faults \<Rightarrow> db \<Rightarrow> string \<Rightarrow> drug_row option" where
  "select_drug F d input =
     (case F SelectDrug of
        Some e \<Rightarrow> None
      | None \<Rightarrow> find (\<lambda>r. ilike (ctype_lower d) (d_name r) (''%'' @ input @ ''%'')) (drugs d))"

definition select_gene :: "faults \<Rightarrow> db \<Rightarrow> string \<Rightarrow> gene_row option" where
  "select_gene F d input =
     (case F SelectGene of
        Some e \<Rightarrow> None
      | None \<Rightarrow> find (\<lambda>r. ilike (ctype_lower d) (g_symbol r) (''%'' @ input @ ''%'')) (genes d))"

text \<open>
  The interactions of a (drug, gene) pair, each with its embedded guideline and
  phenotype: an embedded row is \<open>null\<close> when the foreign key is \<open>NULL\<close>.
\<close>

record joined_interaction =
  row :: interaction_row
  guideline :: "guideline_row option"
  phenotype :: "phenotype_row option"

definition embed :: "db \<Rightarrow> interaction_row \<Rightarrow> joined_interaction" where
  "embed d i =
     \<lparr>row = i,
      guideline =
        (case i_guideline_id i of
           None \<Rightarrow> None
         | Some gid \<Rightarrow> find (\<lambda>g. gl_id g = gid) (guidelines d)),
      phenotype =
        (case i_phenotype_id i of
           None \<Rightarrow> None
         | Some pid \<Rightarrow> find (\<lambda>p. ph_id p = pid) (phenotypes d))\<rparr>"

definition select_interactions ::
  "faults \<Rightarrow> db \<Rightarrow> uuid \<Rightarrow> uuid \<Rightarrow> joined_interaction list option" where
  "select_interactions F d drug gene =
     (case F SelectInteractions of
        Some e \<Rightarrow> None
      | None \<Rightarrow>
          Some (map (embed d)
            (filter (\<lambda>i. i_drug_id i = Some drug \<and> i_gene_id i = Some gene) (interactions d))))"

definition select_citations :: "faults \<Rightarrow> db \<Rightarrow> uuid \<Rightarrow> citation_row list option" where
  "select_citations F d gid =
     (case F SelectCitations of
        Some e \<Rightarrow> None
      | None \<Rightarrow> Some (filter (\<lambda>c. c_guideline_id c = Some gid) (citations d)))"

text \<open>
  \<open>update({query_count: n}).eq('user_id', uid).eq('month', m)\<close> changes the row when it
  exists; \<open>insert({user_id, month, query_count: 1})\<close> adds one unless the key is taken.
  The flow does not read the \<open>error\<close> of either.
\<close>

definition update_usage :: "faults \<Rightarrow> db \<Rightarrow> uuid \<Rightarrow> string \<Rightarrow> int \<Rightarrow> db" where
  "update_usage F d uid month n =
     (case F UpdateUsage of
        Some e \<Rightarrow> d
      | None \<Rightarrow>
          (case usage_monthly d (uid, month) of
             None \<Rightarrow> d
           | Some r \<Rightarrow>
               d\<lparr>usage_monthly := (usage_monthly d)((uid, month) \<mapsto> r\<lparr>query_count := Some n\<rparr>)\<rparr>))"

definition insert_usage :: "faults \<Rightarrow> db \<Rightarrow> uuid \<Rightarrow> string \<Rightarrow> int \<Rightarrow> db" where
  "insert_usage F d uid month n =
     (case F InsertUsage of
        Some e \<Rightarrow> d
      | None \<Rightarrow>
          (case usage_monthly d (uid, month) of
             Some r \<Rightarrow> d
           | None \<Rightarrow>
               d\<lparr>usage_monthly := (usage_monthly d)((uid, month) \<mapsto> \<lparr>query_count = Some n\<rparr>)\<rparr>))"

section \<open>The query page\<close>

datatype view_mode = Patient | Clinician

record query_result =
  drug :: string
  gene :: string
  answer :: string
  citation_lines :: "string list"

record chat_state =
  drugInput :: string
  geneInput :: string
  userType :: view_mode
  loading :: bool
  result :: "query_result option"
  error :: string
  limitReached :: bool
  saveSuccess :: bool

definition not_found_message :: string where
  "not_found_message = ''Not in database yet.''"

text \<open>The handler of the \<open>catch\<close> block: \<open>setError(err.message || 'An error occurred')\<close>.\<close>

definition catch_message :: "string \<Rightarrow> string" where
  "catch_message m = (if m = [] then ''An error occurred'' else m)"

text \<open>
  Reading a property of \<open>null\<close> throws a \<open>TypeError\<close>; its message is the engine's.
\<close>

definition null_deref_message :: string where
  "null_deref_message = ''Cannot read properties of null (reading 'id')''"

text \<open>\<open>usageData && usageData.query_count >= 50\<close>\<close>

definition quota_reached :: "usage_row option \<Rightarrow> bool" where
  "quota_reached usageData =
     (case usageData of None \<Rightarrow> False | Some u \<Rightarrow> js_num (query_count u) \<ge> 50)"

definition format_citation :: "citation_row \<Rightarrow> string" where
  "format_citation c =
     js_str (c_title c) @ '' - '' @ js_str (c_authors c) @ '' ('' @ js_str (c_journal c)
       @ '', '' @ js_int_str (c_year c) @ '')''"

definition phenotype_label :: "joined_interaction \<Rightarrow> string option" where
  "phenotype_label i = (case phenotype i of None \<Rightarrow> None | Some p \<Rightarrow> Some (ph_phenotype p))"

definition render_answer :: "view_mode \<Rightarrow> joined_interaction \<Rightarrow> guideline_row \<Rightarrow> string" where
  "render_answer mode i g =
     (if mode = Patient then
        or_default (js_or (gl_patient_summary g) (i_summary (row i))) ''No information available.''
      else
        js_str (js_or (gl_clinician_summary g) (i_summary (row i)))
          @ ''\<newline>\<newline>Action: '' @ js_str (i_action (row i))
          @ ''\<newline>\<newline>Evidence: '' @ js_str (i_evidence (row i))
          @ ''\<newline>\<newline>Phenotype: '' @ or_default (phenotype_label i) ''N/A''
          @ ''\<newline>\<newline>Evidence Level: '' @ or_default (gl_evidence_level g) ''N/A'')"

text \<open>The upsert at the end of a query that rendered an answer.\<close>

definition write_usage :: "faults \<Rightarrow> db \<Rightarrow> uuid \<Rightarrow> string \<Rightarrow> usage_row option \<Rightarrow> db \<times> call" where
  "write_usage F d uid month usageData =
     (case usageData of
        Some u \<Rightarrow> (update_usage F d uid month (js_num (query_count u) + 1), UpdateUsage)
      | None \<Rightarrow> (insert_usage F d uid month 1, InsertUsage))"

text \<open>
  \<open>handleSubmit\<close> after the quota check: the lookups, the rendering and the upsert.
  \<open>st\<close> is the component state after the resets at the head of the handler.
\<close>

definition resolve ::
  "faults \<Rightarrow> uuid \<Rightarrow> string \<Rightarrow> usage_row option \<Rightarrow> chat_state \<Rightarrow> db \<Rightarrow> chat_state \<times> db \<times> call list" where
  "resolve F uid currentMonth usageData st d =
     (let drugData = select_drug F d (drugInput st);
          geneData = select_gene F d (geneInput st)
      in case (drugData, geneData) of
           (Some dr, Some ge) \<Rightarrow>
             (case select_interactions F d (d_id dr) (g_id ge) of
                None \<Rightarrow>
                  (st\<lparr>error := not_found_message\<rparr>, d,
                   [SelectUsage, SelectDrug, SelectGene, SelectInteractions])
              | Some [] \<Rightarrow>
                  (st\<lparr>error := not_found_message\<rparr>, d,
                   [SelectUsage, SelectDrug, SelectGene, SelectInteractions])
              | Some (interaction # others) \<Rightarrow>
                  (case guideline interaction of
                     None \<Rightarrow>
                       (st\<lparr>error := catch_message null_deref_message\<rparr>, d,
                        [SelectUsage, SelectDrug, SelectGene, SelectInteractions])
                   | Some g \<Rightarrow>
                       (let citationsData = select_citations F d (gl_id g);
                            cites = (case citationsData of
                                       None \<Rightarrow> []
                                     | Some cs \<Rightarrow> map format_citation cs);
                            answerText = render_answer (userType st) interaction g;
                            (d', w) = write_usage F d uid currentMonth usageData
                        in (st\<lparr>result := Some \<lparr>drug = d_name dr, gene = g_symbol ge,
                                                 answer = answerText, citation_lines = cites\<rparr>\<rparr>,
                            d',
                            [SelectUsage, SelectDrug, SelectGene, SelectInteractions,
                             SelectCitations, w]))))
         | _ \<Rightarrow> (st\<lparr>error := not_found_message\<rparr>, d, [SelectUsage, SelectDrug, SelectGene]))"

text \<open>
  \<open>handleSubmit\<close>: \<open>now\<close> is \<open>new Date().toISOString()\<close>, \<open>uid\<close> the signed-in user.
  The result is the component state, the storage and the calls made.
\<close>

definition handleSubmit ::
  "faults \<Rightarrow> string \<Rightarrow> uuid \<Rightarrow> chat_state \<Rightarrow> db \<Rightarrow> chat_state \<times> db \<times> call list" where
  "handleSubmit F now uid st d =
     (let st0 = st\<lparr>error := [], result := None, limitReached := False,
                   saveSuccess := False, loading := False\<rparr>;
          currentMonth = take 7 now
      in case select_usage F d uid currentMonth of
           Inl usageError \<Rightarrow> (st0\<lparr>error := catch_message usageError\<rparr>, d, [SelectUsage])
         | Inr usageData \<Rightarrow>
             if quota_reached usageData then (st0\<lparr>limitReached := True\<rparr>, d, [SelectUsage])
             else resolve F uid currentMonth usageData st0 d)"

text \<open>The three outcomes a user can tell apart.\<close>

definition quota_exceeded :: "chat_state \<Rightarrow> bool" where
  "quota_exceeded st = (limitReached st \<and> result st = None)"

definition not_found :: "chat_state \<Rightarrow> bool" where
  "not_found st = (error st = not_found_message \<and> result st = None \<and> \<not> limitReached st)"

definition succeeded :: "chat_state \<Rightarrow> bool" where
  "succeeded st = (result st \<noteq> None)"

section \<open>Saved answers\<close>

definition view_mode_text :: "view_mode \<Rightarrow> string" where
  "view_mode_text m = (case m of Patient \<Rightarrow> ''Patient'' | Clinician \<Rightarrow> ''Clinician'')"

text \<open>
  \<open>from('saved_answers').insert(row)\<close>. The insert policy demands
  \<open>auth.uid() = user_id\<close>; \<open>caller\<close> is \<open>auth.uid()\<close>.
\<close>

definition insert_saved_answer :: "faults \<Rightarrow> uuid \<Rightarrow> saved_answer \<Rightarrow> db \<Rightarrow> db" where
  "insert_saved_answer F caller r d =
     (case F InsertSavedAnswer of
        Some e \<Rightarrow> d
      | None \<Rightarrow>
          if sa_user_id r = caller then d\<lparr>saved_answers := saved_answers d @ [r]\<rparr> else d)"

text \<open>
  \<open>handleSave\<close> of the query page. \<open>new_id\<close> and \<open>created\<close> are the defaults the storage
  fills in (\<open>gen_random_uuid()\<close>, \<open>now()\<close>). The flow does not read the \<open>error\<close> of the
  insert and sets \<open>saveSuccess\<close> in either case.
\<close>

definition handleSave ::
  "faults \<Rightarrow> uuid \<Rightarrow> uuid \<Rightarrow> string \<Rightarrow> chat_state \<Rightarrow> db \<Rightarrow> chat_state \<times> db" where
  "handleSave F uid new_id created st d =
     (case result st of
        None \<Rightarrow> (st, d)
      | Some r \<Rightarrow>
          (st\<lparr>saveSuccess := True\<rparr>,
           insert_saved_answer F uid
             \<lparr>sa_id = new_id, sa_user_id = uid, sa_drug_name = drug r, sa_gene_name = gene r,
              sa_user_type = view_mode_text (userType st), sa_answer = answer r,
              sa_created_at = created\<rparr> d))"

text \<open>The rows a caller can see: the select policy \<open>auth.uid() = user_id\<close>.\<close>

definition visible_saved_answers :: "uuid \<Rightarrow> db \<Rightarrow> saved_answer list" where
  "visible_saved_answers caller d = filter (\<lambda>r. sa_user_id r = caller) (saved_answers d)"

text \<open>
  \<open>from('saved_answers').delete().eq('id', ident)\<close> under the delete policy
  \<open>USING (auth.uid() = user_id)\<close>: the storage removes the rows that pass both the
  filter and the policy, and reports no error when there are none.
\<close>

definition delete_saved_answer :: "faults \<Rightarrow> uuid \<Rightarrow> uuid \<Rightarrow> db \<Rightarrow> string option \<times> db" where
  "delete_saved_answer F caller ident d =
     (case F DeleteSavedAnswer of
        Some e \<Rightarrow> (Some e, d)
      | None \<Rightarrow>
          (None,
           d\<lparr>saved_answers :=
               filter (\<lambda>r. \<not> (sa_id r = ident \<and> sa_user_id r = caller)) (saved_answers d)\<rparr>))"

text \<open>
  \<open>handleDelete\<close> of the saved-answers page: the page's list, the storage, and the
  error written to the console, if any.
\<close>

definition handleDelete ::
  "faults \<Rightarrow> uuid \<Rightarrow> uuid \<Rightarrow> saved_answer list \<Rightarrow> db \<Rightarrow> saved_answer list \<times> db \<times> string option" where
  "handleDelete F caller ident savedAnswers d =
     (case delete_saved_answer F caller ident d of
        (Some e, d') \<Rightarrow> (savedAnswers, d', Some e)
      | (None, d') \<Rightarrow> (filter (\<lambda>sa. sa_id sa \<noteq> ident) savedAnswers, d', None))"

text \<open>
  Edits of the reference data. The pages have no call for them; they are the
  \<open>UPDATE \<dots> WHERE id = \<dots>\<close> of a privileged process, with \<open>f\<close> the new column values.
  No foreign key or trigger of the migration links \<open>saved_answers\<close> to these tables.
\<close>

definition update_guideline :: "uuid \<Rightarrow> (guideline_row \<Rightarrow> guideline_row) \<Rightarrow> db \<Rightarrow> db" where
  "update_guideline gid f d =
     d\<lparr>guidelines := map (\<lambda>g. if gl_id g = gid then f g else g) (guidelines d)\<rparr>"

definition update_interaction :: "uuid \<Rightarrow> (interaction_row \<Rightarrow> interaction_row) \<Rightarrow> db \<Rightarrow> db" where
  "update_interaction iid f d =
     d\<lparr>interactions := map (\<lambda>i. if i_id i = iid then f i else i) (interactions d)\<rparr>"

section \<open>The ingestion trigger of the admin page\<close>

text \<open>What \<open>fetch\<close> yields: a rejected promise, or a response with its HTTP status.\<close>

datatype fetch_outcome = NetworkError string | Response nat

definition response_ok :: "nat \<Rightarrow> bool" where
  "response_ok status = (200 \<le> status \<and> status \<le> 299)"

definition acknowledged :: "fetch_outcome \<Rightarrow> bool" where
  "acknowledged r = (case r of NetworkError m \<Rightarrow> False | Response status \<Rightarrow> response_ok status)"

datatype toast_type = ToastSuccess | ToastError

record toast =
  message :: string
  kind :: toast_type

text \<open>
  Row-level security. A policy of the migration is \<open>true\<close>, or \<open>auth.uid() = user_id\<close>,
  or \<open>EXISTS (SELECT 1 FROM app_admins WHERE user_id = auth.uid())\<close>. \<open>policy_reads c t\<close>
  lists the tables that the policies of table \<open>t\<close> for command \<open>c\<close> read in a sub-select.
  The select policy of \<open>app_admins\<close> reads \<open>app_admins\<close> itself.
\<close>

datatype relation =
    AppAdmins | Sources | Drugs | Genes | Variants | Phenotypes | Guidelines | Interactions
  | Citations | SavedAnswers | UsageMonthly | IngestionJobs | AuditLog

datatype command = SELECT | INSERT | UPDATE | DELETE

fun policy_reads :: "command \<Rightarrow> relation \<Rightarrow> relation list" where
  "policy_reads SELECT AppAdmins = [AppAdmins]"
| "policy_reads INSERT Sources = [AppAdmins]"
| "policy_reads UPDATE Sources = [AppAdmins]"
| "policy_reads DELETE Sources = [AppAdmins]"
| "policy_reads SELECT IngestionJobs = [AppAdmins]"
| "policy_reads INSERT IngestionJobs = [AppAdmins]"
| "policy_reads SELECT AuditLog = [AppAdmins]"
| "policy_reads c t = []"

text \<open>
  When the storage plans a command on a table whose policies hold a sub-select, it
  expands the policies of the tables read there in turn, and rejects the command with
  error \<open>42P17\<close> (infinite recursion detected in policy) as soon as it meets a table
  whose policies it is already expanding. \<open>active\<close> are those tables; the first argument
  bounds the depth of the expansion, and thirteen tables need no more than fourteen.
\<close>

fun policy_recursion :: "nat \<Rightarrow> relation list \<Rightarrow> command \<Rightarrow> relation \<Rightarrow> bool" where
  "policy_recursion 0 active c t = False"
| "policy_recursion (Suc n) active c t =
     (policy_reads c t \<noteq> [] \<and>
      (t \<in> set active \<or> (\<exists>u\<in>set (policy_reads c t). policy_recursion n (t # active) SELECT u)))"

text \<open>
  \<open>from('ingestion_jobs').insert([row])\<close> under the insert policy of \<open>ingestion_jobs\<close>,
  which asks that the caller is listed in \<open>app_admins\<close>: the error of the call, if any,
  and the storage. \<open>42501\<close> is the violation of the policy.
\<close>

definition insert_ingestion_job ::
  "faults \<Rightarrow> uuid \<Rightarrow> ingestion_job \<Rightarrow> db \<Rightarrow> string option \<times> db" where
  "insert_ingestion_job F caller job d =
     (case F InsertIngestionJob of
        Some e \<Rightarrow> (Some e, d)
      | None \<Rightarrow>
          if policy_recursion 14 [] INSERT IngestionJobs then (Some ''42P17'', d)
          else if caller \<in> set (app_admins d)
          then (None, d\<lparr>ingestion_jobs := ingestion_jobs d @ [job]\<rparr>)
          else (Some ''42501'', d))"

text \<open>
  \<open>triggerWebhook\<close>: \<open>post url\<close> is the outcome of the \<open>POST\<close> to \<open>url\<close>, \<open>now\<close> is
  \<open>new Date().toISOString()\<close>, \<open>new_id\<close> the id the storage generates. The flow awaits
  the insert and does not read its \<open>error\<close>. The result is the toast shown and the
  storage.
\<close>

definition triggerWebhook ::
  "faults \<Rightarrow> (string \<Rightarrow> fetch_outcome) \<Rightarrow> uuid \<Rightarrow> uuid \<Rightarrow> string \<Rightarrow> string \<Rightarrow> string \<Rightarrow> db
     \<Rightarrow> toast \<times> db" where
  "triggerWebhook F post caller new_id now jobType webhookUrl d =
     (case post webhookUrl of
        NetworkError m \<Rightarrow>
          (\<lparr>message = (if m = [] then ''Failed to trigger webhook'' else m), kind = ToastError\<rparr>, d)
      | Response status \<Rightarrow>
          if \<not> response_ok status then (\<lparr>message = ''Webhook failed'', kind = ToastError\<rparr>, d)
          else
            (\<lparr>message = jobType @ '' triggered successfully'', kind = ToastSuccess\<rparr>,
             snd (insert_ingestion_job F caller
               \<lparr>j_id = new_id, j_job_type = jobType, j_status = Some ''pending'',
                j_started_at = Some now, j_completed_at = None, j_records_processed = Some 0,
                j_error_message = None\<rparr> d)))"

section \<open>A small database\<close>

text \<open>
  A locale that lower-cases the capital letters of the Latin-1 supplement, U+00C0 to
  U+00DE without the multiplication sign: in UTF-8 the byte \<open>C3\<close> followed by \<open>80\<close> to
  \<open>9E\<close>, whose lower-case form has the second byte raised by \<open>20\<close>. Every other character
  is left as it is.
\<close>

definition latin1_lower :: "string \<Rightarrow> string" where
  "latin1_lower ch =
     (case ch of
        [a, b] \<Rightarrow>
          if a = CHR 0xC3 \<and> is_continuation b \<and> \<not> digit5 b \<and> b \<noteq> CHR 0x97 \<and> b \<noteq> CHR 0x9F
          then [a, Char (digit0 b) (digit1 b) (digit2 b) (digit3 b) (digit4 b) True
                     (digit6 b) (digit7 b)]
          else ch
      | _ \<Rightarrow> ch)"

definition warfarin :: drug_row where
  "warfarin = \<lparr>d_id = ''d1'', d_name = ''Warfarin''\<rparr>"

definition cyp2c9 :: gene_row where
  "cyp2c9 = \<lparr>g_id = ''g1'', g_symbol = ''CYP2C9''\<rparr>"

definition warfarin_guideline :: guideline_row where
  "warfarin_guideline =
     \<lparr>gl_id = ''gl1'', gl_recommendation = None, gl_evidence_level = Some ''High'',
      gl_patient_summary = Some ''Reduce dose'',
      gl_clinician_summary = Some ''Lower the starting dose''\<rparr>"

definition warfarin_interaction :: interaction_row where
  "warfarin_interaction =
     \<lparr>i_id = ''i1'', i_drug_id = Some ''d1'', i_gene_id = Some ''g1'', i_phenotype_id = None,
      i_guideline_id = Some ''gl1'', i_action = Some ''Adjust'', i_summary = Some ''Monitor INR'',
      i_evidence = Some ''CPIC''\<rparr>"

definition warfarin_citation :: citation_row where
  "warfarin_citation =
     \<lparr>c_guideline_id = Some ''gl1'', c_title = Some ''Dosing'', c_authors = Some ''Lee'',
      c_journal = Some ''CPT'', c_year = Some 2017, c_url = None\<rparr>"

definition demo_db :: db where
  "demo_db =
     \<lparr>ctype_lower = latin1_lower, app_admins = [''root''], drugs = [warfarin],
      genes = [cyp2c9], phenotypes = [],
      guidelines = [warfarin_guideline], interactions = [warfarin_interaction],
      citations = [warfarin_citation], saved_answers = [], usage_monthly = Map.empty,
      ingestion_jobs = []\<rparr>"

definition demo_state :: chat_state where
  "demo_state =
     \<lparr>drugInput = ''Warfarin'', geneInput = ''CYP2C9'', userType = Patient, loading = False,
      result = None, error = [], limitReached = False, saveSuccess = False\<rparr>"

definition demo_now :: string where
  "demo_now = ''2026-11-03T10:00:00.000Z''"

text \<open>The same database after fifty queries of user \<open>u1\<close> in November 2026.\<close>

definition full_db :: db where
  "full_db = demo_db\<lparr>usage_monthly := [(''u1'', ''2026-11'') \<mapsto> \<lparr>query_count = Some 50\<rparr>]\<rparr>"

text \<open>The same database when the fifty queries were made in October 2026.\<close>

definition october_db :: db where
  "october_db = demo_db\<lparr>usage_monthly := [(''u1'', ''2026-10'') \<mapsto> \<lparr>query_count = Some 50\<rparr>]\<rparr>"

text \<open>The same database after seven queries of user \<open>u1\<close> in November 2026.\<close>

definition used_db :: db where
  "used_db = demo_db\<lparr>usage_monthly := [(''u1'', ''2026-11'') \<mapsto> \<lparr>query_count = Some 7\<rparr>]\<rparr>"

text \<open>
  The database after the guideline of the only interaction was deleted: the foreign key
  is \<open>ON DELETE SET NULL\<close>.
\<close>

definition orphan_db :: db where
  "orphan_db = demo_db\<lparr>interactions := [warfarin_interaction\<lparr>i_guideline_id := None\<rparr>]\<rparr>"

text \<open>The database with an interaction whose \<open>action\<close> column is \<open>NULL\<close>.\<close>

definition no_action_db :: db where
  "no_action_db = demo_db\<lparr>interactions := [warfarin_interaction\<lparr>i_action := None\<rparr>]\<rparr>"

text \<open>A storage that fails on the drug lookup and on nothing else.\<close>

definition drug_lookup_down :: faults where
  "drug_lookup_down = no_faults(SelectDrug \<mapsto> ''Service Unavailable'')"

text \<open>An edit of a guideline's patient summary.\<close>

definition edit_summary :: "guideline_row \<Rightarrow> guideline_row" where
  "edit_summary g = g\<lparr>gl_patient_summary := Some ''Increase dose''\<rparr>"

text \<open>The page and the storage after the first query of user \<open>u1\<close>.\<close>

definition answered_state :: chat_state where
  "answered_state = fst (handleSubmit no_faults demo_now ''u1'' demo_state demo_db)"

definition answered_db :: db where
  "answered_db = fst (snd (handleSubmit no_faults demo_now ''u1'' demo_state demo_db))"

text \<open>Two saved answers, one of user \<open>u1\<close> and one of user \<open>u2\<close>.\<close>

definition alice_answer :: saved_answer where
  "alice_answer =
     \<lparr>sa_id = ''s1'', sa_user_id = ''u1'', sa_drug_name = ''Warfarin'', sa_gene_name = ''CYP2C9'',
      sa_user_type = ''Patient'', sa_answer = ''Reduce dose'', sa_created_at = ''2026-11-01''\<rparr>"

definition bob_answer :: saved_answer where
  "bob_answer =
     \<lparr>sa_id = ''s2'', sa_user_id = ''u2'', sa_drug_name = ''Warfarin'', sa_gene_name = ''CYP2C9'',
      sa_user_type = ''Clinician'', sa_answer = ''Lower the starting dose'',
      sa_created_at = ''2026-11-02''\<rparr>"

definition cases_db :: db where
  "cases_db = demo_db\<lparr>saved_answers := [alice_answer, bob_answer]\<rparr>"

text \<open>A webhook endpoint that answers every call with 200.\<close>

definition ok_endpoint :: "string \<Rightarrow> fetch_outcome" where
  "ok_endpoint url = Response 200"




section \<open>Properties\<close>

subsection \<open>The quota check\<close>

lemma take7_demo_now: "take 7 demo_now = ''2026-11''"
  by (simp add: demo_now_def)

lemma resolve_keeps_limitReached:
  "limitReached (fst (resolve F uid m ud st d)) = limitReached st"
  by (simp add: resolve_def Let_def split: option.splits list.splits prod.splits)

lemma handleSubmit_quota:
  assumes "F SelectUsage = None" and "quota_reached (usage_monthly d (uid, take 7 now))"
  shows "handleSubmit F now uid st d =
           (st\<lparr>error := [], result := None, limitReached := True, saveSuccess := False,
               loading := False\<rparr>, d, [SelectUsage])"
  using assms by (simp add: handleSubmit_def select_usage_def Let_def)

text \<open>
  Claim C1. When the requester's usage row of the current month is fetched and holds a
  \<open>query_count\<close> of 50 or more, \<open>handleSubmit\<close> ends with the limit notice and no result
  (quota exceeded), leaves the whole storage as it was, and the only storage call it
  made is the read of that usage row: no drug, gene, interaction or citation lookup and
  no write.
\<close>

theorem quota_exceeded_stops_the_flow:
  assumes "F SelectUsage = None"
    and "usage_monthly d (uid, take 7 now) = Some u"
    and "query_count u = Some n"
    and "50 \<le> n"
  shows "quota_exceeded (fst (handleSubmit F now uid st d))
       \<and> fst (snd (handleSubmit F now uid st d)) = d
       \<and> snd (snd (handleSubmit F now uid st d)) = [SelectUsage]"
proof -
  have "quota_reached (usage_monthly d (uid, take 7 now))"
    using assms by (simp add: quota_reached_def js_num_def)
  with assms(1) have "handleSubmit F now uid st d =
      (st\<lparr>error := [], result := None, limitReached := True, saveSuccess := False,
          loading := False\<rparr>, d, [SelectUsage])"
    by (rule handleSubmit_quota)
  then show ?thesis by (simp add: quota_exceeded_def)
qed

theorem quota_exceeded_stops_the_flow_witness:
  "quota_exceeded (fst (handleSubmit no_faults demo_now ''u1'' demo_state full_db))
   \<and> fst (snd (handleSubmit no_faults demo_now ''u1'' demo_state full_db)) = full_db
   \<and> snd (snd (handleSubmit no_faults demo_now ''u1'' demo_state full_db)) = [SelectUsage]"
proof -
  have a: "no_faults SelectUsage = None" by (simp add: no_faults_def)
  have b: "usage_monthly full_db (''u1'', take 7 demo_now) = Some \<lparr>query_count = Some 50\<rparr>"
    by (simp add: full_db_def take7_demo_now)
  have c: "query_count \<lparr>query_count = Some 50\<rparr> = Some 50" by simp
  have e: "(50::int) \<le> 50" by simp
  show ?thesis
    using a b c e
    by (rule quota_exceeded_stops_the_flow
        [where F = no_faults and d = full_db and uid = "''u1''" and now = demo_now
          and u = "\<lparr>query_count = Some 50\<rparr>" and n = 50 and st = demo_state])
qed

text \<open>
  Claim C10. The limit notice is raised only when the usage read succeeded and returned
  a row of the requester for the current month whose \<open>query_count\<close> is at least 50. When
  there is no row for the requester and the current month, the query is not denied for
  quota, whatever the rows of other months hold.
\<close>

theorem quota_denial_needs_a_full_row:
  "(limitReached (fst (handleSubmit F now uid st d)) \<longrightarrow>
      F SelectUsage = None \<and>
      (\<exists>u n. usage_monthly d (uid, take 7 now) = Some u \<and> query_count u = Some n \<and> 50 \<le> n))
   \<and> (usage_monthly d (uid, take 7 now) = None \<longrightarrow>
        \<not> limitReached (fst (handleSubmit F now uid st d))
        \<and> \<not> quota_exceeded (fst (handleSubmit F now uid st d)))"
  by (auto simp add: handleSubmit_def select_usage_def Let_def quota_reached_def quota_exceeded_def
      js_num_def resolve_keeps_limitReached split: option.splits)

theorem quota_denial_needs_a_full_row_witness:
  "(\<exists>u n. usage_monthly full_db (''u1'', take 7 demo_now) = Some u \<and> query_count u = Some n
       \<and> 50 \<le> n)
   \<and> usage_monthly october_db (''u1'', ''2026-10'') = Some \<lparr>query_count = Some 50\<rparr>
   \<and> \<not> limitReached (fst (handleSubmit no_faults demo_now ''u1'' demo_state october_db))"
proof -
  have "limitReached (fst (handleSubmit no_faults demo_now ''u1'' demo_state full_db))"
    by (simp add: handleSubmit_def select_usage_def Let_def quota_reached_def js_num_def
        no_faults_def full_db_def take7_demo_now)
  moreover have "usage_monthly october_db (''u1'', take 7 demo_now) = None"
    by (simp add: october_db_def take7_demo_now)
  moreover have "usage_monthly october_db (''u1'', ''2026-10'') = Some \<lparr>query_count = Some 50\<rparr>"
    by (simp add: october_db_def)
  ultimately show ?thesis
    using quota_denial_needs_a_full_row
        [where F = no_faults and d = full_db and uid = "''u1''" and now = demo_now
          and st = demo_state]
      quota_denial_needs_a_full_row
        [where F = no_faults and d = october_db and uid = "''u1''" and now = demo_now
          and st = demo_state]
    by blast
qed

subsection \<open>Evaluating the flows on the small database\<close>

lemmas demo_defs =
  demo_db_def demo_state_def warfarin_def cyp2c9_def warfarin_guideline_def
  warfarin_interaction_def warfarin_citation_def no_faults_def

lemmas flow_defs =
  handleSubmit_def resolve_def select_usage_def select_drug_def select_gene_def
  select_interactions_def select_citations_def write_usage_def insert_usage_def update_usage_def
  quota_reached_def embed_def render_answer_def format_citation_def phenotype_label_def
  catch_message_def

lemmas js_defs =
  or_default_def js_or_def truthy_def js_str_def js_int_str_def js_num_def digits.simps
  ilike_def lower_def lower_char_def to_lower_def star2percent_def is_ascii_def
  is_continuation_def latin1_lower_def

lemma demo_query:
  "handleSubmit no_faults demo_now ''u1'' demo_state demo_db =
     (demo_state\<lparr>result := Some \<lparr>drug = ''Warfarin'', gene = ''CYP2C9'', answer = ''Reduce dose'',
                                 citation_lines = [''Dosing - Lee (CPT, 2017)'']\<rparr>\<rparr>,
      demo_db\<lparr>usage_monthly := [(''u1'', ''2026-11'') \<mapsto> \<lparr>query_count = Some 1\<rparr>]\<rparr>,
      [SelectUsage, SelectDrug, SelectGene, SelectInteractions, SelectCitations, InsertUsage])"
  by (simp add: flow_defs js_defs demo_defs take7_demo_now)

lemma used_query:
  "handleSubmit no_faults demo_now ''u1'' demo_state used_db =
     (demo_state\<lparr>result := Some \<lparr>drug = ''Warfarin'', gene = ''CYP2C9'', answer = ''Reduce dose'',
                                 citation_lines = [''Dosing - Lee (CPT, 2017)'']\<rparr>\<rparr>,
      demo_db\<lparr>usage_monthly := [(''u1'', ''2026-11'') \<mapsto> \<lparr>query_count = Some 8\<rparr>]\<rparr>,
      [SelectUsage, SelectDrug, SelectGene, SelectInteractions, SelectCitations, UpdateUsage])"
  by (simp add: flow_defs js_defs demo_defs used_db_def take7_demo_now)

subsection \<open>The usage counter\<close>

lemma resolve_result:
  assumes "result st = None"
    and "succeeded (fst (resolve F uid m ud st d))"
  shows "fst (snd (resolve F uid m ud st d)) = fst (write_usage F d uid m ud)"
  using assms
  by (auto simp add: resolve_def succeeded_def Let_def
      split: option.splits list.splits prod.splits)

lemma handleSubmit_succeeded:
  assumes "succeeded (fst (handleSubmit F now uid st d))"
  shows "fst (snd (handleSubmit F now uid st d)) =
           fst (write_usage F d uid (take 7 now) (usage_monthly d (uid, take 7 now)))"
  using assms
  by (auto simp add: handleSubmit_def select_usage_def Let_def succeeded_def[symmetric]
      resolve_result split: option.splits if_splits) (auto simp: succeeded_def)

text \<open>
  A query succeeds as soon as the usage read works, the quota is not reached, the drug
  and the gene resolve, the pair has an interaction, and the first interaction carries a
  guideline.
\<close>

lemma resolved_query_succeeds:
  assumes "F SelectUsage = None"
    and "\<not> quota_reached (usage_monthly d (uid, take 7 now))"
    and "select_drug F d (drugInput st) = Some dr"
    and "select_gene F d (geneInput st) = Some ge"
    and "select_interactions F d (d_id dr) (g_id ge) = Some (i # others)"
    and "guideline i = Some g"
  shows "succeeded (fst (handleSubmit F now uid st d))"
  using assms
  by (simp add: handleSubmit_def select_usage_def resolve_def Let_def succeeded_def
      split: prod.splits)

text \<open>
  Whenever \<open>handleSubmit\<close> renders an answer and the storage carries out the write, the
  requester's usage row of the current month is upserted: an existing row keeps its
  place with \<open>query_count\<close> raised by one (a \<open>NULL\<close> count reads as 0), and when there was
  no row a new one with \<open>query_count = 1\<close> is inserted. Every other usage row and every
  other table is unchanged.
\<close>

lemma rendered_answer_upserts_usage:
  assumes "succeeded (fst (handleSubmit F now uid st d))"
    and "F UpdateUsage = None"
    and "F InsertUsage = None"
  shows "usage_monthly (fst (snd (handleSubmit F now uid st d))) (uid, take 7 now) =
           (case usage_monthly d (uid, take 7 now) of
              None \<Rightarrow> Some \<lparr>query_count = Some 1\<rparr>
            | Some u \<Rightarrow> Some (u\<lparr>query_count := Some (js_num (query_count u) + 1)\<rparr>))
       \<and> (\<forall>k. k \<noteq> (uid, take 7 now) \<longrightarrow>
             usage_monthly (fst (snd (handleSubmit F now uid st d))) k = usage_monthly d k)
       \<and> (fst (snd (handleSubmit F now uid st d)))\<lparr>usage_monthly := usage_monthly d\<rparr> = d"
  using assms(2,3)
  by (simp add: handleSubmit_succeeded [OF assms(1)] write_usage_def update_usage_def
      insert_usage_def split: option.splits)

lemma rendered_answer_upserts_usage_example:
  "map_option answer (result (fst (handleSubmit no_faults demo_now ''u1'' demo_state demo_db)))
     = Some ''Reduce dose''
   \<and> usage_monthly demo_db (''u1'', ''2026-11'') = None
   \<and> usage_monthly (fst (snd (handleSubmit no_faults demo_now ''u1'' demo_state demo_db)))
       (''u1'', ''2026-11'') = Some \<lparr>query_count = Some 1\<rparr>
   \<and> usage_monthly used_db (''u1'', ''2026-11'') = Some \<lparr>query_count = Some 7\<rparr>
   \<and> usage_monthly (fst (snd (handleSubmit no_faults demo_now ''u1'' demo_state used_db)))
       (''u1'', ''2026-11'') = Some \<lparr>query_count = Some 8\<rparr>"
proof -
  have s1: "succeeded (fst (handleSubmit no_faults demo_now ''u1'' demo_state demo_db))"
    by (simp add: demo_query succeeded_def)
  have s2: "succeeded (fst (handleSubmit no_faults demo_now ''u1'' demo_state used_db))"
    by (simp add: used_query succeeded_def)
  have w: "no_faults UpdateUsage = None" "no_faults InsertUsage = None"
    by (simp_all add: no_faults_def)
  have e1: "usage_monthly demo_db (''u1'', ''2026-11'') = None"
    by (simp add: demo_db_def)
  have e2: "usage_monthly used_db (''u1'', ''2026-11'') = Some \<lparr>query_count = Some 7\<rparr>"
    by (simp add: used_db_def)
  have a: "map_option answer (result (fst (handleSubmit no_faults demo_now ''u1'' demo_state demo_db)))
     = Some ''Reduce dose''"
    by (simp add: demo_query)
  show ?thesis
    using rendered_answer_upserts_usage [OF s1 w] rendered_answer_upserts_usage [OF s2 w] a e1 e2
    by (simp add: take7_demo_now js_num_def)
qed

text \<open>
  Claim C2 asks for the upsert after every query for which the quota is not reached and
  the drug, the gene and an interaction are resolved. On \<open>orphan_db\<close> all of that holds
  for the first query of user \<open>u1\<close>, and the flow writes nothing: the selected
  interaction has no guideline, reading \<open>guideline.id\<close> throws, and the handler of the
  exception is reached before the upsert. The user is left without a usage row,
  where the claim has one with \<open>query_count = 1\<close>.
\<close>

theorem resolved_query_without_guideline_counts_nothing:
  "no_faults SelectUsage = None
   \<and> usage_monthly orphan_db (''u1'', take 7 demo_now) = None
   \<and> \<not> quota_reached (usage_monthly orphan_db (''u1'', take 7 demo_now))
   \<and> select_drug no_faults orphan_db (drugInput demo_state) = Some warfarin
   \<and> select_gene no_faults orphan_db (geneInput demo_state) = Some cyp2c9
   \<and> select_interactions no_faults orphan_db (d_id warfarin) (g_id cyp2c9) =
       Some [\<lparr>row = warfarin_interaction\<lparr>i_guideline_id := None\<rparr>, guideline = None,
               phenotype = None\<rparr>]
   \<and> \<not> succeeded (fst (handleSubmit no_faults demo_now ''u1'' demo_state orphan_db))
   \<and> fst (snd (handleSubmit no_faults demo_now ''u1'' demo_state orphan_db)) = orphan_db
   \<and> usage_monthly (fst (snd (handleSubmit no_faults demo_now ''u1'' demo_state orphan_db)))
       (''u1'', take 7 demo_now) = None"
proof -
  have "handleSubmit no_faults demo_now ''u1'' demo_state orphan_db =
      (demo_state\<lparr>error := null_deref_message\<rparr>, orphan_db,
       [SelectUsage, SelectDrug, SelectGene, SelectInteractions])"
    by (simp add: flow_defs js_defs demo_defs take7_demo_now orphan_db_def null_deref_message_def)
  moreover have "usage_monthly orphan_db (''u1'', take 7 demo_now) = None"
    by (simp add: orphan_db_def demo_db_def)
  moreover have "select_drug no_faults orphan_db (drugInput demo_state) = Some warfarin"
    by (simp add: select_drug_def js_defs demo_defs orphan_db_def)
  moreover have "select_gene no_faults orphan_db (geneInput demo_state) = Some cyp2c9"
    by (simp add: select_gene_def js_defs demo_defs orphan_db_def)
  moreover have "select_interactions no_faults orphan_db (d_id warfarin) (g_id cyp2c9) =
       Some [\<lparr>row = warfarin_interaction\<lparr>i_guideline_id := None\<rparr>, guideline = None,
               phenotype = None\<rparr>]"
    by (simp add: select_interactions_def embed_def demo_defs orphan_db_def)
  ultimately show ?thesis
    by (simp add: succeeded_def quota_reached_def no_faults_def demo_state_def)
qed

subsection \<open>Resolving the drug and the gene\<close>





















subsection \<open>Rendering the answer\<close>

text \<open>
  With a guideline at hand, the patient answer is the guideline's patient summary when
  that is a non-empty string, else the interaction's summary when that is one, else the
  fixed sentence.
\<close>

lemma patient_answer:
  "render_answer Patient i g =
     (if truthy (gl_patient_summary g) then js_str (gl_patient_summary g)
      else if truthy (i_summary (row i)) then js_str (i_summary (row i))
      else ''No information available.'')"
  by (auto simp add: render_answer_def or_default_def js_or_def truthy_def js_str_def
      split: option.splits)

text \<open>
  Claim C5 asks, for every interaction selected in patient mode, for an answer that is
  the guideline's patient summary when present and otherwise the interaction's summary.
  For the interaction of \<open>orphan_db\<close>, which has no guideline and the summary
  \<open>Monitor INR\<close>, the flow renders no answer: reading \<open>guideline.id\<close> of the missing
  guideline throws, and the message of that exception is shown as the error.
\<close>

theorem patient_query_without_guideline_fails:
  "interactions orphan_db = [warfarin_interaction\<lparr>i_guideline_id := None\<rparr>]
   \<and> i_summary (warfarin_interaction\<lparr>i_guideline_id := None\<rparr>) = Some ''Monitor INR''
   \<and> userType demo_state = Patient
   \<and> result (fst (handleSubmit no_faults demo_now ''u1'' demo_state orphan_db)) = None
   \<and> error (fst (handleSubmit no_faults demo_now ''u1'' demo_state orphan_db)) = null_deref_message"
  by (simp add: flow_defs js_defs demo_defs take7_demo_now orphan_db_def null_deref_message_def)

text \<open>
  With a guideline at hand, the clinician answer is five sections in a fixed order.
  Only the last two fall back to \<open>N/A\<close>; the first three print an absent field as the
  word \<open>null\<close>.
\<close>

lemma clinician_answer:
  "render_answer Clinician i g =
     js_str (js_or (gl_clinician_summary g) (i_summary (row i)))
       @ ''\<newline>\<newline>Action: '' @ js_str (i_action (row i))
       @ ''\<newline>\<newline>Evidence: '' @ js_str (i_evidence (row i))
       @ ''\<newline>\<newline>Phenotype: ''
       @ (case phenotype i of None \<Rightarrow> ''N/A''
          | Some p \<Rightarrow> if ph_phenotype p = [] then ''N/A'' else ph_phenotype p)
       @ ''\<newline>\<newline>Evidence Level: ''
       @ (if truthy (gl_evidence_level g) then js_str (gl_evidence_level g) else ''N/A'')"
  by (auto simp add: render_answer_def or_default_def phenotype_label_def truthy_def js_str_def
      split: option.splits)

text \<open>
  Claim C3 asks each section of the clinician answer to fall back to \<open>N/A\<close> when its
  field is absent. For the interaction of \<open>no_action_db\<close>, whose \<open>action\<close> is \<open>NULL\<close>,
  the Action section reads \<open>null\<close>.
\<close>

theorem clinician_answer_prints_null_action:
  "i_action (warfarin_interaction\<lparr>i_action := None\<rparr>) = None
   \<and> map_option answer (result (fst (handleSubmit no_faults demo_now ''u1''
          (demo_state\<lparr>userType := Clinician\<rparr>) no_action_db)))
      = Some ''Lower the starting dose\<newline>\<newline>Action: null\<newline>\<newline>Evidence: CPIC\<newline>\<newline>Phenotype: N/A\<newline>\<newline>Evidence Level: High''"
  by (simp add: flow_defs js_defs demo_defs take7_demo_now no_action_db_def)

subsection \<open>Failure messages\<close>

text \<open>
  An unresolved drug, an unresolved gene and an empty set of interactions all end with
  the same message.
\<close>

lemma not_found_causes_share_message:
  assumes "F SelectUsage = None"
    and "\<not> quota_reached (usage_monthly d (uid, take 7 now))"
    and "select_drug F d (drugInput st) = None
         \<or> select_gene F d (geneInput st) = None
         \<or> (\<exists>dr ge. select_drug F d (drugInput st) = Some dr
                \<and> select_gene F d (geneInput st) = Some ge
                \<and> select_interactions F d (d_id dr) (g_id ge) = Some [])"
  shows "error (fst (handleSubmit F now uid st d)) = not_found_message
       \<and> result (fst (handleSubmit F now uid st d)) = None"
  using assms
  by (auto simp add: handleSubmit_def select_usage_def resolve_def Let_def split: option.splits)

text \<open>A failure of the usage read is shown with the storage's own message.\<close>

lemma usage_failure_is_surfaced:
  assumes "F SelectUsage = Some m"
  shows "error (fst (handleSubmit F now uid st d)) = (if m = [] then ''An error occurred'' else m)
       \<and> result (fst (handleSubmit F now uid st d)) = None"
  using assms
  by (simp add: handleSubmit_def select_usage_def Let_def catch_message_def)

text \<open>
  Claim C6 asks that an unavailable storage produces a text different from the one
  not-found message. When the storage fails on the drug lookup, for a drug that is in
  the database, the flow does not read the error, sees no row and shows the not-found
  message.
\<close>

theorem drug_lookup_failure_reads_as_not_found:
  "drug_lookup_down SelectDrug = Some ''Service Unavailable''
   \<and> select_drug no_faults demo_db (drugInput demo_state) = Some warfarin
   \<and> error (fst (handleSubmit drug_lookup_down demo_now ''u1'' demo_state demo_db))
       = not_found_message
   \<and> not_found (fst (handleSubmit drug_lookup_down demo_now ''u1'' demo_state demo_db))"
  by (simp add: flow_defs js_defs demo_defs take7_demo_now drug_lookup_down_def not_found_def)

subsection \<open>Saved answers\<close>

text \<open>
  Claim C7. Saving a rendered answer appends a row that holds copies of the result's drug
  name, gene symbol and answer text and of the view mode of the page, and no later edit
  of a guideline or of an interaction changes any saved row.
\<close>

theorem saved_answer_is_a_snapshot:
  assumes "result st = Some r"
    and "F InsertSavedAnswer = None"
  shows "saved_answers (snd (handleSave F uid new_id created st d)) =
           saved_answers d @
             [\<lparr>sa_id = new_id, sa_user_id = uid, sa_drug_name = drug r, sa_gene_name = gene r,
               sa_user_type = view_mode_text (userType st), sa_answer = answer r,
               sa_created_at = created\<rparr>]
       \<and> saved_answers (update_guideline gid f (snd (handleSave F uid new_id created st d))) =
           saved_answers (snd (handleSave F uid new_id created st d))
       \<and> saved_answers (update_interaction iid h (snd (handleSave F uid new_id created st d))) =
           saved_answers (snd (handleSave F uid new_id created st d))"
  using assms
  by (simp add: handleSave_def insert_saved_answer_def update_guideline_def update_interaction_def)

lemma answered_state_eq:
  "answered_state =
     demo_state\<lparr>result := Some \<lparr>drug = ''Warfarin'', gene = ''CYP2C9'', answer = ''Reduce dose'',
                                 citation_lines = [''Dosing - Lee (CPT, 2017)'']\<rparr>\<rparr>"
  unfolding answered_state_def demo_query by simp

lemma answered_db_eq:
  "answered_db =
     demo_db\<lparr>usage_monthly := [(''u1'', ''2026-11'') \<mapsto> \<lparr>query_count = Some 1\<rparr>]\<rparr>"
  unfolding answered_db_def demo_query by simp

theorem saved_answer_is_a_snapshot_witness:
  "map sa_answer (saved_answers (update_guideline ''gl1'' edit_summary
     (snd (handleSave no_faults ''u1'' ''s1'' demo_now answered_state answered_db)))) = [''Reduce dose'']
  \<and> map sa_drug_name (saved_answers (update_guideline ''gl1'' edit_summary
     (snd (handleSave no_faults ''u1'' ''s1'' demo_now answered_state answered_db)))) = [''Warfarin'']
  \<and> map sa_gene_name (saved_answers (update_guideline ''gl1'' edit_summary
     (snd (handleSave no_faults ''u1'' ''s1'' demo_now answered_state answered_db)))) = [''CYP2C9'']
  \<and> map sa_user_type (saved_answers (update_guideline ''gl1'' edit_summary
     (snd (handleSave no_faults ''u1'' ''s1'' demo_now answered_state answered_db)))) = [''Patient'']
  \<and> map_option answer (result (fst (handleSubmit no_faults demo_now ''u1'' demo_state
       (update_guideline ''gl1'' edit_summary
         (snd (handleSave no_faults ''u1'' ''s1'' demo_now answered_state answered_db))))))
     = Some ''Increase dose''"
proof -
  let ?r = "\<lparr>drug = ''Warfarin'', gene = ''CYP2C9'', answer = ''Reduce dose'',
             citation_lines = [''Dosing - Lee (CPT, 2017)'']\<rparr>"
  have r: "result answered_state = Some ?r"
    by (simp add: answered_state_eq)
  have u: "userType answered_state = Patient"
    by (simp add: answered_state_eq demo_state_def)
  have n: "no_faults InsertSavedAnswer = None"
    by (simp add: no_faults_def)
  have e: "saved_answers answered_db = []"
    by (simp add: answered_db_eq demo_db_def)
  note s = saved_answer_is_a_snapshot [where F = no_faults and st = answered_state and r = ?r
      and uid = "''u1''" and new_id = "''s1''" and created = demo_now and d = answered_db
      and gid = "''gl1''" and f = edit_summary, OF r n]
  have q: "map_option answer (result (fst (handleSubmit no_faults demo_now ''u1'' demo_state
       (update_guideline ''gl1'' edit_summary
         (snd (handleSave no_faults ''u1'' ''s1'' demo_now answered_state answered_db))))))
     = Some ''Increase dose''"
    by (simp add: answered_db_eq answered_state_eq handleSave_def
        insert_saved_answer_def update_guideline_def edit_summary_def view_mode_text_def
        flow_defs js_defs demo_defs take7_demo_now)
  show ?thesis
    using s q by (simp add: e u view_mode_text_def)
qed

subsection \<open>Deleting a saved answer\<close>

lemma filter_not_owned:
  assumes "\<forall>r\<in>set xs. sa_id r = ident \<longrightarrow> sa_user_id r \<noteq> caller"
  shows "filter (\<lambda>r. \<not> (sa_id r = ident \<and> sa_user_id r = caller)) xs = xs"
  using assms by (induction xs) auto

text \<open>
  Claim C8. Whatever the caller and the id, \<open>handleDelete\<close> leaves the rows of all other
  users in place and in order. When no row with that id belongs to the caller, the
  storage is unchanged, and the call ends without an error when the storage is
  available. After a delete that the storage carried out, the id is absent from the
  caller's visible rows, so a second delete of the same id changes nothing and succeeds.
\<close>

theorem delete_never_touches_other_users:
  "filter (\<lambda>r. sa_user_id r \<noteq> caller)
       (saved_answers (fst (snd (handleDelete F caller ident shown d))))
     = filter (\<lambda>r. sa_user_id r \<noteq> caller) (saved_answers d)
   \<and> ((\<forall>r\<in>set (saved_answers d). sa_id r = ident \<longrightarrow> sa_user_id r \<noteq> caller) \<longrightarrow>
        fst (snd (handleDelete F caller ident shown d)) = d)
   \<and> (F DeleteSavedAnswer = None \<and> ident \<notin> sa_id ` set (visible_saved_answers caller d) \<longrightarrow>
        fst (snd (handleDelete F caller ident shown d)) = d
        \<and> snd (snd (handleDelete F caller ident shown d)) = None)
   \<and> (F DeleteSavedAnswer = None \<longrightarrow>
        ident \<notin> sa_id ` set (visible_saved_answers caller
                  (fst (snd (handleDelete F caller ident shown d)))))"
proof (intro conjI impI)
  show "filter (\<lambda>r. sa_user_id r \<noteq> caller)
       (saved_answers (fst (snd (handleDelete F caller ident shown d))))
     = filter (\<lambda>r. sa_user_id r \<noteq> caller) (saved_answers d)"
    by (auto simp add: handleDelete_def delete_saved_answer_def split: option.splits
        intro!: filter_cong)
next
  assume "\<forall>r\<in>set (saved_answers d). sa_id r = ident \<longrightarrow> sa_user_id r \<noteq> caller"
  then show "fst (snd (handleDelete F caller ident shown d)) = d"
    by (simp add: handleDelete_def delete_saved_answer_def filter_not_owned split: option.splits)
next
  assume h: "F DeleteSavedAnswer = None \<and> ident \<notin> sa_id ` set (visible_saved_answers caller d)"
  then have "\<forall>r\<in>set (saved_answers d). sa_id r = ident \<longrightarrow> sa_user_id r \<noteq> caller"
    by (auto simp: visible_saved_answers_def)
  with h show "fst (snd (handleDelete F caller ident shown d)) = d"
    and "snd (snd (handleDelete F caller ident shown d)) = None"
    by (simp_all add: handleDelete_def delete_saved_answer_def filter_not_owned)
next
  assume "F DeleteSavedAnswer = None"
  then show "ident \<notin> sa_id ` set (visible_saved_answers caller
                  (fst (snd (handleDelete F caller ident shown d))))"
    by (auto simp add: handleDelete_def delete_saved_answer_def visible_saved_answers_def)
qed

theorem delete_never_touches_other_users_witness:
  "saved_answers (fst (snd (handleDelete no_faults ''u1'' ''s2'' [alice_answer] cases_db)))
     = [alice_answer, bob_answer]
   \<and> snd (snd (handleDelete no_faults ''u1'' ''s2'' [alice_answer] cases_db)) = None
   \<and> saved_answers (fst (snd (handleDelete no_faults ''u1'' ''s1'' [alice_answer] cases_db)))
     = [bob_answer]
   \<and> ''s1'' \<notin> sa_id ` set (visible_saved_answers ''u1''
         (fst (snd (handleDelete no_faults ''u1'' ''s1'' [alice_answer] cases_db))))"
proof -
  have n: "no_faults DeleteSavedAnswer = None" by (simp add: no_faults_def)
  have v: "''s2'' \<notin> sa_id ` set (visible_saved_answers ''u1'' cases_db)"
    by (simp add: visible_saved_answers_def cases_db_def alice_answer_def bob_answer_def)
  have o: "\<forall>r\<in>set (saved_answers cases_db). sa_id r = ''s2'' \<longrightarrow> sa_user_id r \<noteq> ''u1''"
    by (simp add: cases_db_def alice_answer_def bob_answer_def)
  have s: "saved_answers cases_db = [alice_answer, bob_answer]"
    by (simp add: cases_db_def)
  have k: "saved_answers (fst (snd (handleDelete no_faults ''u1'' ''s1'' [alice_answer] cases_db)))
     = [bob_answer]"
    by (simp add: handleDelete_def delete_saved_answer_def no_faults_def cases_db_def
        alice_answer_def bob_answer_def)
  show ?thesis
    using delete_never_touches_other_users
        [where F = no_faults and caller = "''u1''" and ident = "''s2''" and shown = "[alice_answer]"
          and d = cases_db]
      delete_never_touches_other_users
        [where F = no_faults and caller = "''u1''" and ident = "''s1''" and shown = "[alice_answer]"
          and d = cases_db]
      n v o s k
    by simp
qed

subsection \<open>Triggering an ingestion\<close>

text \<open>
  The policies of \<open>saved_answers\<close> and \<open>usage_monthly\<close> hold no sub-select and are
  expanded without an error. The insert policy of \<open>ingestion_jobs\<close> reads \<open>app_admins\<close>,
  whose select policy reads \<open>app_admins\<close> again: the storage rejects the insert, whoever
  the caller is.
\<close>

lemma own_row_policies_do_not_recurse:
  "\<not> policy_recursion 14 [] c SavedAnswers \<and> \<not> policy_recursion 14 [] c UsageMonthly"
  by (cases c) (simp_all add: eval_nat_numeral)

lemma ingestion_policy_recurses: "policy_recursion 14 [] INSERT IngestionJobs"
  by (simp add: eval_nat_numeral)

lemma ingestion_insert_is_refused:
  "snd (insert_ingestion_job F caller job d) = d
   \<and> fst (insert_ingestion_job F caller job d) \<noteq> None"
  by (simp add: insert_ingestion_job_def ingestion_policy_recurses split: option.splits)

text \<open>A \<open>POST\<close> that is not acknowledged inserts nothing and shows an error toast.\<close>

lemma failed_post_inserts_nothing:
  assumes "\<not> acknowledged (post url)"
  shows "snd (triggerWebhook F post caller new_id now jobType url d) = d
       \<and> kind (fst (triggerWebhook F post caller new_id now jobType url d)) = ToastError"
  using assms
  by (auto simp add: triggerWebhook_def acknowledged_def split: fetch_outcome.splits)

text \<open>No trigger changes the storage.\<close>

lemma trigger_never_inserts:
  "snd (triggerWebhook F post caller new_id now jobType url d) = d"
  by (simp add: triggerWebhook_def ingestion_insert_is_refused split: fetch_outcome.splits)

text \<open>
  Claim C9 asks for a new job row with status \<open>pending\<close> whenever the \<open>POST\<close> is
  acknowledged. For the administrator \<open>root\<close> and an endpoint that answers 200, the
  storage rejects the insert with error \<open>42P17\<close>, \<open>triggerWebhook\<close> does not read that
  error, the toast reports success, and \<open>ingestion_jobs\<close> has no row.
\<close>

theorem acknowledged_trigger_inserts_no_job:
  "acknowledged (ok_endpoint ''https://hooks/fda'')
   \<and> ''root'' \<in> set (app_admins demo_db)
   \<and> fst (insert_ingestion_job no_faults ''root''
         \<lparr>j_id = ''j1'', j_job_type = ''FDA Ingestion'', j_status = Some ''pending'',
          j_started_at = Some demo_now, j_completed_at = None, j_records_processed = Some 0,
          j_error_message = None\<rparr> demo_db) = Some ''42P17''
   \<and> triggerWebhook no_faults ok_endpoint ''root'' ''j1'' demo_now ''FDA Ingestion''
       ''https://hooks/fda'' demo_db
     = (\<lparr>message = ''FDA Ingestion triggered successfully'', kind = ToastSuccess\<rparr>, demo_db)
   \<and> ingestion_jobs (snd (triggerWebhook no_faults ok_endpoint ''root'' ''j1'' demo_now
       ''FDA Ingestion'' ''https://hooks/fda'' demo_db)) = []"
proof -
  have "acknowledged (ok_endpoint ''https://hooks/fda'')"
    by (simp add: acknowledged_def ok_endpoint_def response_ok_def)
  moreover have "''root'' \<in> set (app_admins demo_db)"
    by (simp add: demo_db_def)
  moreover have "fst (insert_ingestion_job no_faults ''root''
         \<lparr>j_id = ''j1'', j_job_type = ''FDA Ingestion'', j_status = Some ''pending'',
          j_started_at = Some demo_now, j_completed_at = None, j_records_processed = Some 0,
          j_error_message = None\<rparr> demo_db) = Some ''42P17''"
    by (simp add: insert_ingestion_job_def no_faults_def ingestion_policy_recurses)
  moreover have "triggerWebhook no_faults ok_endpoint ''root'' ''j1'' demo_now ''FDA Ingestion''
       ''https://hooks/fda'' demo_db
     = (\<lparr>message = ''FDA Ingestion triggered successfully'', kind = ToastSuccess\<rparr>, demo_db)"
    by (simp add: triggerWebhook_def ok_endpoint_def response_ok_def ingestion_insert_is_refused)
  moreover have "ingestion_jobs demo_db = []"
    by (simp add: demo_db_def)
  ultimately show ?thesis by simp
qed

end
